theory Spec2Isabelle
  imports Complex_Main "HOL-Library.Sublist"
begin

section \<open>Side-pass stages of the planning module\<close>

text \<open>
  A shallow embedding of \<^verbatim>\<open>modules/planning/scenarios/side_pass/side_pass_stage.cc\<close>:
  the five \<^verbatim>\<open>Process\<close> methods of the side-pass scenario
  (\<^verbatim>\<open>SidePassBackup\<close>, \<^verbatim>\<open>SidePassApproachObstacle\<close>, \<^verbatim>\<open>SidePassGeneratePath\<close>,
  \<^verbatim>\<open>SidePassDetectSafety\<close>, \<^verbatim>\<open>SidePassPassObstacle\<close>).

  Conventions of the embedding.
  \<^item> A C++ \<^verbatim>\<open>double\<close> is a \<^typ>\<open>real\<close>: finite values with exact arithmetic; rounding,
    infinities and NaN are outside the model.
  \<^item> A method that mutates its object takes the object and returns the new one. The
    frame is passed through every call that receives \<^verbatim>\<open>Frame*\<close>.
  \<^item> A C++ reference into the frame that is read after \<^verbatim>\<open>PlanningOnReferenceLine\<close> has
    run (\<^verbatim>\<open>reference_line_info\<close>, \<^verbatim>\<open>path_decision\<close>, \<^verbatim>\<open>adc_sl_boundary\<close>) reads the frame as
    the planner left it, so the model reads the frame returned by the planner there.
  \<^item> \<^verbatim>\<open>frame->reference_line_info().front()\<close> is the field \<open>front\<close> of the frame: the
    stages touch no other element of that list.
  \<^item> The members \<^verbatim>\<open>next_stage_\<close>, \<^verbatim>\<open>scenario_config_\<close> and \<^verbatim>\<open>path_data_\<close> are the fields
    \<open>next_stage\<close>, \<open>scenario_config\<close> and \<open>ctx_path_data\<close>; \<^verbatim>\<open>Obstacle::Id\<close> is \<open>Id_of\<close>.
  \<^item> Collaborators that are called here and defined elsewhere (the planner, the
    reference line's queries, the path data's update and trim, the flag of the nudge
    buffer) are fields of the records \<open>ReferenceLine\<close> and \<open>Env\<close>: the theorems hold
    for every such collaborator.
\<close>

subsection \<open>Data\<close>

type_synonym double = real

record Vec2d =
  vx :: double
  vy :: double

record SLPoint =
  sl_s :: double
  sl_l :: double

record FrenetFramePoint =
  fr_s :: double
  fr_l :: double

record PathPoint =
  pp_x :: double
  pp_y :: double

record TrajectoryPoint =
  path_point :: PathPoint

record SLBoundary =
  start_s :: double
  end_s :: double
  start_l :: double
  end_l :: double

record Box2d =
  center :: Vec2d
  box_length :: double
  box_width :: double
  heading :: double

record Obstacle =
  Id_of :: string
  IsVirtual :: bool
  IsStatic :: bool
  speed :: double
  PerceptionSLBoundary :: SLBoundary
  PerceptionBoundingBox :: Box2d

text \<open>
  The reference line is used through four queries. \<open>GetLaneWidth s\<close> is the pair left in
  \<^verbatim>\<open>lane_left_width\<close>, \<^verbatim>\<open>lane_right_width\<close> by the call at station \<open>s\<close> (both are
  initialised to 0.0 before it and the call's own return value is dropped); \<open>XYToSL\<close>
  is \<open>None\<close> where the C++ returns false.
\<close>

record ReferenceLine =
  GetLaneWidth :: "double \<Rightarrow> double \<times> double"
  HasOverlap :: "Box2d \<Rightarrow> bool"
  XYToSL :: "Vec2d \<Rightarrow> SLPoint option"
  GetFrenetPoint :: "PathPoint \<Rightarrow> FrenetFramePoint"

record PathData =
  discretized_path :: "PathPoint list"
  frenet_frame_path :: "FrenetFramePoint list"

record DebugPath =
  debug_name :: string
  debug_path_point :: "PathPoint list"

record ReferenceLineInfo =
  AdcSlBoundary :: SLBoundary
  obstacles :: "Obstacle list"
  reference_line :: ReferenceLine
  path_data :: PathData
  trajectory :: "TrajectoryPoint list"
  debug :: "DebugPath list"

record Frame =
  front :: ReferenceLineInfo
  linear_velocity :: double
  PlanningStartPoint :: TrajectoryPoint

record ScenarioConfig =
  block_obstacle_min_speed :: double
  approach_obstacle_max_stop_speed :: double
  approach_obstacle_min_stop_distance :: double
  side_pass_exit_distance :: double

text \<open>
  Modelled from the spec: the declaration of \<^verbatim>\<open>ScenarioConfig::StageType\<close> is not among the
  sources. The spec's closed enumeration of phases, under the enumerators' names the source
  uses; \<open>SIDE_PASS_STOP_ON_WAITPOINT\<close> is the directive \<^verbatim>\<open>SidePassGeneratePath\<close> sets and the
  phase the spec calls \<^verbatim>\<open>DETECT_SAFETY\<close> ("equivalently named stop-on-waypoint").
\<close>

datatype StageType =
  NO_STAGE
  | SIDE_PASS_BACKUP
  | SIDE_PASS_APPROACH_OBSTACLE
  | SIDE_PASS_GENERATE_PATH
  | SIDE_PASS_STOP_ON_WAITPOINT
  | SIDE_PASS_PASS_OBSTACLE

text \<open>
  Modelled from the spec: the declaration of \<^verbatim>\<open>Stage::StageStatus\<close> is not among the sources;
  the three cycle outcomes the source returns.
\<close>

datatype StageStatus = ERROR | RUNNING | FINISHED

text \<open>
  The context of the scenario, which \<^verbatim>\<open>GetContext()\<close> returns, and the state of a stage
  object: its directive \<^verbatim>\<open>next_stage_\<close> and the context it shares with the other stages.
\<close>

record SidePassContext =
  scenario_config :: ScenarioConfig
  ctx_path_data :: PathData

record Stage =
  next_stage :: StageType
  GetContext :: SidePassContext

text \<open>
  The collaborators outside the reference line. \<open>PlanningOnReferenceLine\<close> returns its
  flag and the frame as it leaves it; \<open>UpdateFrenetFramePath\<close> and \<open>LeftTrimWithRefS\<close>
  return their flag and the path data they were called on, as they leave it; \<open>EndPoint\<close>
  is \<^verbatim>\<open>DiscretizedPath::EndPoint\<close> on the points of a path.
\<close>

record Env =
  PlanningOnReferenceLine :: "TrajectoryPoint \<Rightarrow> Frame \<Rightarrow> bool \<times> Frame"
  UpdateFrenetFramePath :: "ReferenceLine \<Rightarrow> PathData \<Rightarrow> bool \<times> PathData"
  LeftTrimWithRefS :: "double \<Rightarrow> double \<Rightarrow> PathData \<Rightarrow> bool \<times> PathData"
  EndPoint :: "PathPoint list \<Rightarrow> PathPoint"
  FLAGS_static_decision_nudge_l_buffer :: double

definition kExtraMarginforStopOnWaitPointStage :: double where
  "kExtraMarginforStopOnWaitPointStage = 3.0"

definition kAdcDistanceThreshold :: double where
  "kAdcDistanceThreshold = 15.0"

definition kLBufferThreshold :: double where
  "kLBufferThreshold = 0.3"

subsection \<open>SidePassBackup\<close>

text \<open>
  Lines 78 to 87: the driving width beside an obstacle, from the lane widths at the
  obstacle's start station and the nudge buffer.
\<close>

definition driving_width :: "double \<Rightarrow> double \<Rightarrow> double \<Rightarrow> SLBoundary \<Rightarrow> double" where
  "driving_width nudge lane_left_width lane_right_width sl =
     min (lane_left_width + lane_right_width)
         (max (lane_left_width - end_l sl) (lane_right_width + start_l sl)) - nudge"

text \<open>
  One pass of the loop body of lines 54 to 95, for a single obstacle: \<open>True\<close> where the body
  reaches \<^verbatim>\<open>has_blocking_obstacle = true\<close>, \<open>False\<close> where it reaches a \<^verbatim>\<open>continue\<close>. The
  \<^verbatim>\<open>CHECK(obstacle->IsStatic())\<close> of line 58 follows a \<^verbatim>\<open>continue\<close> on non-static obstacles
  and cannot fail.
\<close>

definition backup_blocks :: "Env \<Rightarrow> ScenarioConfig \<Rightarrow> ReferenceLineInfo \<Rightarrow> Obstacle \<Rightarrow> bool" where
  "backup_blocks env cfg rli ob =
     (if IsVirtual ob \<or> \<not> IsStatic ob then False
      else if speed ob > block_obstacle_min_speed cfg then False
      else if start_s (PerceptionSLBoundary ob) \<le> end_s (AdcSlBoundary rli) then False
      else if start_s (PerceptionSLBoundary ob) > end_s (AdcSlBoundary rli) + kAdcDistanceThreshold
        then False
      else (case GetLaneWidth (reference_line rli) (start_s (PerceptionSLBoundary ob)) of
              (lane_left_width, lane_right_width) \<Rightarrow>
                if driving_width (FLAGS_static_decision_nudge_l_buffer env)
                     lane_left_width lane_right_width (PerceptionSLBoundary ob) > kLBufferThreshold
                then False
                else True))"

text \<open>The loop of lines 53 to 95: it stops at the first blocking obstacle.\<close>

fun backup_has_blocking_obstacle ::
  "Env \<Rightarrow> ScenarioConfig \<Rightarrow> ReferenceLineInfo \<Rightarrow> Obstacle list \<Rightarrow> bool" where
  "backup_has_blocking_obstacle env cfg rli [] = False"
| "backup_has_blocking_obstacle env cfg rli (ob # obs) =
     (if backup_blocks env cfg rli ob then True
      else backup_has_blocking_obstacle env cfg rli obs)"

definition SidePassBackup_Process ::
  "Env \<Rightarrow> TrajectoryPoint \<Rightarrow> Stage \<Rightarrow> Frame \<Rightarrow> StageStatus \<times> Stage \<times> Frame" where
  "SidePassBackup_Process env planning_start_point st frame =
     (if \<not> backup_has_blocking_obstacle env (scenario_config (GetContext st)) (front frame)
            (obstacles (front frame))
      then (FINISHED, st\<lparr>next_stage := NO_STAGE\<rparr>, frame)
      else (case PlanningOnReferenceLine env planning_start_point frame of
              (plan_ok, frame') \<Rightarrow>
                if \<not> plan_ok then (ERROR, st, frame') else (RUNNING, st, frame')))"

subsection \<open>SidePassApproachObstacle\<close>

text \<open>
  The loop body of lines 125 to 149 for a single obstacle: \<open>True\<close> where it reaches
  \<^verbatim>\<open>has_blocking_obstacle = true\<close>, \<open>False\<close> where it reaches a \<^verbatim>\<open>continue\<close>.
\<close>

definition approach_blocks :: "ScenarioConfig \<Rightarrow> ReferenceLineInfo \<Rightarrow> Obstacle \<Rightarrow> bool" where
  "approach_blocks cfg rli ob =
     (if IsVirtual ob \<or> \<not> IsStatic ob then False
      else if speed ob > block_obstacle_min_speed cfg then False
      else if start_s (PerceptionSLBoundary ob) \<le> end_s (AdcSlBoundary rli) then False
      else if start_s (PerceptionSLBoundary ob) > end_s (AdcSlBoundary rli) + kAdcDistanceThreshold
        then False
      else if start_l (PerceptionSLBoundary ob) > 1.0 \<or> end_l (PerceptionSLBoundary ob) < - 1.0
        then False
      else True)"

text \<open>
  The loop of lines 124 to 149. It has no \<^verbatim>\<open>break\<close>: the flag is carried to the end of the
  list.
\<close>

fun approach_has_blocking_obstacle ::
  "ScenarioConfig \<Rightarrow> ReferenceLineInfo \<Rightarrow> Obstacle list \<Rightarrow> bool \<Rightarrow> bool" where
  "approach_has_blocking_obstacle cfg rli [] has_blocking_obstacle = has_blocking_obstacle"
| "approach_has_blocking_obstacle cfg rli (ob # obs) has_blocking_obstacle =
     approach_has_blocking_obstacle cfg rli obs
       (if approach_blocks cfg rli ob then True else has_blocking_obstacle)"

text \<open>
  The loop of lines 167 to 188: the running value of \<^verbatim>\<open>front_obstacle_distance\<close>, which the
  caller starts at 1000.
\<close>

fun front_obstacle_distance_loop ::
  "ReferenceLineInfo \<Rightarrow> double \<Rightarrow> Obstacle list \<Rightarrow> double \<Rightarrow> double" where
  "front_obstacle_distance_loop rli adc_front_edge_s [] front_obstacle_distance =
     front_obstacle_distance"
| "front_obstacle_distance_loop rli adc_front_edge_s (ob # obs) front_obstacle_distance =
     (if IsVirtual ob
        then front_obstacle_distance_loop rli adc_front_edge_s obs front_obstacle_distance
      else if \<not> HasOverlap (reference_line rli) (PerceptionBoundingBox ob)
        then front_obstacle_distance_loop rli adc_front_edge_s obs front_obstacle_distance
      else if end_s (PerceptionSLBoundary ob) \<le> start_s (AdcSlBoundary rli)
        then front_obstacle_distance_loop rli adc_front_edge_s obs front_obstacle_distance
      else if start_s (PerceptionSLBoundary ob) - adc_front_edge_s < front_obstacle_distance
        then front_obstacle_distance_loop rli adc_front_edge_s obs
               (start_s (PerceptionSLBoundary ob) - adc_front_edge_s)
      else front_obstacle_distance_loop rli adc_front_edge_s obs front_obstacle_distance)"

text \<open>Lines 162 to 188, on the frame the planner returned.\<close>

definition front_obstacle_distance :: "Frame \<Rightarrow> double" where
  "front_obstacle_distance frame =
     front_obstacle_distance_loop (front frame) (end_s (AdcSlBoundary (front frame)))
       (obstacles (front frame)) 1000"

definition SidePassApproachObstacle_Process ::
  "Env \<Rightarrow> TrajectoryPoint \<Rightarrow> Stage \<Rightarrow> Frame \<Rightarrow> StageStatus \<times> Stage \<times> Frame" where
  "SidePassApproachObstacle_Process env planning_start_point st frame =
     (if \<not> approach_has_blocking_obstacle (scenario_config (GetContext st)) (front frame)
            (obstacles (front frame)) False
      then (FINISHED, st\<lparr>next_stage := NO_STAGE\<rparr>, frame)
      else (case PlanningOnReferenceLine env planning_start_point frame of
              (plan_ok, frame') \<Rightarrow>
                if \<not> plan_ok then (ERROR, st, frame')
                else if front_obstacle_distance frame' < 0 then (ERROR, st, frame')
                else if linear_velocity frame'
                          < approach_obstacle_max_stop_speed (scenario_config (GetContext st))
                        \<and> front_obstacle_distance frame'
                          > approach_obstacle_min_stop_distance (scenario_config (GetContext st))
                  then (FINISHED, st\<lparr>next_stage := SIDE_PASS_GENERATE_PATH\<rparr>, frame')
                else (RUNNING, st, frame')))"

subsection \<open>SidePassGeneratePath\<close>

definition SidePassGeneratePath_Process ::
  "Env \<Rightarrow> TrajectoryPoint \<Rightarrow> Stage \<Rightarrow> Frame \<Rightarrow> StageStatus \<times> Stage \<times> Frame" where
  "SidePassGeneratePath_Process env planning_start_point st frame =
     (case PlanningOnReferenceLine env planning_start_point frame of
        (plan_ok, frame') \<Rightarrow>
          if \<not> plan_ok then (FINISHED, st\<lparr>next_stage := SIDE_PASS_BACKUP\<rparr>, frame')
          else (let st1 = st\<lparr>GetContext :=
                              (GetContext st)\<lparr>ctx_path_data := path_data (front frame')\<rparr>\<rparr>
                in if length (trajectory (front frame')) > 0
                     then (FINISHED, st1\<lparr>next_stage := SIDE_PASS_STOP_ON_WAITPOINT\<rparr>, frame')
                   else (RUNNING, st1, frame')))"

subsection \<open>The hand-off of the stored path\<close>

text \<open>
  Lines 236 to 266 of \<^verbatim>\<open>SidePassDetectSafety::Process\<close>, which are lines 297 to 330 of
  \<^verbatim>\<open>SidePassPassObstacle::Process\<close> again: the stored path is projected on the reference
  line and trimmed at the ego's position (both in place, in the context), then copied into
  the frame and into the frame's debug record. The flag is \<open>False\<close> where the source
  returns \<^verbatim>\<open>Stage::ERROR\<close>.
\<close>

definition hand_off :: "Env \<Rightarrow> Stage \<Rightarrow> Frame \<Rightarrow> bool \<times> Stage \<times> Frame" where
  "hand_off env st frame =
     (case UpdateFrenetFramePath env (reference_line (front frame))
             (ctx_path_data (GetContext st)) of
        (update_success, pd1) \<Rightarrow>
          if \<not> update_success
            then (False, st\<lparr>GetContext := (GetContext st)\<lparr>ctx_path_data := pd1\<rparr>\<rparr>, frame)
          else (case LeftTrimWithRefS env
                       (fr_s (GetFrenetPoint (reference_line (front frame))
                                (path_point (PlanningStartPoint frame))))
                       (fr_l (GetFrenetPoint (reference_line (front frame))
                                (path_point (PlanningStartPoint frame))))
                       pd1 of
                  (trim_success, pd2) \<Rightarrow>
                    if \<not> trim_success
                      then (False, st\<lparr>GetContext := (GetContext st)\<lparr>ctx_path_data := pd2\<rparr>\<rparr>, frame)
                    else (True,
                          st\<lparr>GetContext := (GetContext st)\<lparr>ctx_path_data := pd2\<rparr>\<rparr>,
                          frame\<lparr>front := (front frame)
                            \<lparr>path_data := pd2,
                             debug := debug (front frame) @
                               [\<lparr>debug_name = ''DpPolyPathOptimizer'',
                                 debug_path_point = discretized_path pd2\<rparr>]\<rparr>\<rparr>)))"

subsection \<open>SidePassDetectSafety\<close>

text \<open>The loop of lines 271 to 283: \<^verbatim>\<open>is_safe\<close>, which the first marker found sets to false.\<close>

fun is_safe :: "double \<Rightarrow> Obstacle list \<Rightarrow> bool" where
  "is_safe adc_front_edge_s [] = True"
| "is_safe adc_front_edge_s (ob # obs) =
     (if IsVirtual ob \<and> take 3 (Id_of ob) = ''SP_''
         \<and> start_s (PerceptionSLBoundary ob) \<ge> adc_front_edge_s
      then False
      else is_safe adc_front_edge_s obs)"

definition SidePassDetectSafety_Process ::
  "Env \<Rightarrow> TrajectoryPoint \<Rightarrow> Stage \<Rightarrow> Frame \<Rightarrow> StageStatus \<times> Stage \<times> Frame" where
  "SidePassDetectSafety_Process env planning_start_point st frame =
     (case hand_off env st frame of
        (ok, st1, frame1) \<Rightarrow>
          if \<not> ok then (ERROR, st1, frame1)
          else (case PlanningOnReferenceLine env planning_start_point frame1 of
                  (plan_ok, frame2) \<Rightarrow>
                    if \<not> plan_ok then (ERROR, st1, frame2)
                    else if is_safe (end_s (AdcSlBoundary (front frame2)))
                              (obstacles (front frame2))
                      then (FINISHED, st1\<lparr>next_stage := SIDE_PASS_PASS_OBSTACLE\<rparr>, frame2)
                    else (RUNNING, st1, frame2)))"

subsection \<open>SidePassPassObstacle\<close>

definition SidePassPassObstacle_Process ::
  "Env \<Rightarrow> TrajectoryPoint \<Rightarrow> Stage \<Rightarrow> Frame \<Rightarrow> StageStatus \<times> Stage \<times> Frame" where
  "SidePassPassObstacle_Process env planning_start_point st frame =
     (case hand_off env st frame of
        (ok, st1, frame1) \<Rightarrow>
          if \<not> ok then (ERROR, st1, frame1)
          else (case PlanningOnReferenceLine env planning_start_point frame1 of
                  (plan_ok, frame2) \<Rightarrow>
                    if \<not> plan_ok then (ERROR, st1, frame2)
                    else (case XYToSL (reference_line (front frame2))
                                 \<lparr>vx = pp_x (EndPoint env (discretized_path (path_data (front frame2)))),
                                  vy = pp_y (EndPoint env (discretized_path (path_data (front frame2))))\<rparr> of
                            None \<Rightarrow> (ERROR, st1, frame2)
                          | Some sl_point \<Rightarrow>
                              if end_s (AdcSlBoundary (front frame2))
                                   > sl_s sl_point
                                     - side_pass_exit_distance (scenario_config (GetContext st1))
                                 \<or> linear_velocity frame2
                                   < approach_obstacle_max_stop_speed
                                       (scenario_config (GetContext st1))
                                then (FINISHED, st1\<lparr>next_stage := NO_STAGE\<rparr>, frame2)
                              else (RUNNING, st1, frame2))))"

subsection \<open>The stage invoked in a cycle\<close>

text \<open>
  The five classes that override \<^verbatim>\<open>Stage::Process\<close> in this file, and the virtual call.
\<close>

datatype StageClass =
  SidePassBackup
  | SidePassApproachObstacle
  | SidePassGeneratePath
  | SidePassDetectSafety
  | SidePassPassObstacle

fun Process ::
  "StageClass \<Rightarrow> Env \<Rightarrow> TrajectoryPoint \<Rightarrow> Stage \<Rightarrow> Frame \<Rightarrow> StageStatus \<times> Stage \<times> Frame" where
  "Process SidePassBackup = SidePassBackup_Process"
| "Process SidePassApproachObstacle = SidePassApproachObstacle_Process"
| "Process SidePassGeneratePath = SidePassGeneratePath_Process"
| "Process SidePassDetectSafety = SidePassDetectSafety_Process"
| "Process SidePassPassObstacle = SidePassPassObstacle_Process"

subsection \<open>Predicates of the specification\<close>

text \<open>
  The conditions under which the loops of \<^verbatim>\<open>SidePassBackup\<close> and
  \<^verbatim>\<open>SidePassApproachObstacle\<close> go on to their lateral test: the obstacle is sensed, static,
  not faster than the cutoff, ahead of the ego's end station and within the 15 m window.
\<close>

definition passes_preconditions :: "ScenarioConfig \<Rightarrow> ReferenceLineInfo \<Rightarrow> Obstacle \<Rightarrow> bool" where
  "passes_preconditions cfg rli ob =
     (\<not> IsVirtual ob \<and> IsStatic ob \<and> \<not> speed ob > block_obstacle_min_speed cfg
      \<and> start_s (PerceptionSLBoundary ob) > end_s (AdcSlBoundary rli)
      \<and> start_s (PerceptionSLBoundary ob) \<le> end_s (AdcSlBoundary rli) + 15)"

text \<open>
  The obstacles the specification's section 8 excludes from every blocking classification:
  outside the forward window, behind the ego, non-static, virtual, or faster than the
  cutoff.
\<close>

definition outside_filter :: "ScenarioConfig \<Rightarrow> ReferenceLineInfo \<Rightarrow> Obstacle \<Rightarrow> bool" where
  "outside_filter cfg rli ob =
     (start_s (PerceptionSLBoundary ob) > end_s (AdcSlBoundary rli) + 15
      \<or> \<not> start_s (PerceptionSLBoundary ob) > end_s (AdcSlBoundary rli)
      \<or> \<not> IsStatic ob
      \<or> IsVirtual ob
      \<or> speed ob > block_obstacle_min_speed cfg)"

text \<open>The same scene over a reference line that answers the lane-width query with \<open>g\<close>.\<close>

definition set_lane_width ::
  "(double \<Rightarrow> double \<times> double) \<Rightarrow> ReferenceLineInfo \<Rightarrow> ReferenceLineInfo" where
  "set_lane_width g rli = rli\<lparr>reference_line := (reference_line rli)\<lparr>GetLaneWidth := g\<rparr>\<rparr>"

text \<open>
  The transition table of the specification's section 4.5: for each phase, the next-phase
  directives it lists.
\<close>

definition spec_transition_table :: "StageClass \<Rightarrow> StageType set" where
  "spec_transition_table c =
     (case c of
        SidePassBackup \<Rightarrow> {NO_STAGE}
      | SidePassApproachObstacle \<Rightarrow> {NO_STAGE, SIDE_PASS_GENERATE_PATH}
      | SidePassGeneratePath \<Rightarrow> {SIDE_PASS_STOP_ON_WAITPOINT, SIDE_PASS_BACKUP}
      | SidePassDetectSafety \<Rightarrow> {SIDE_PASS_PASS_OBSTACLE}
      | SidePassPassObstacle \<Rightarrow> {NO_STAGE})"

text \<open>
  The nearest-ahead-on-road distance in the specification's words: the obstacles that
  qualify, their distances, and the minimum of these or the sentinel when there is none.
\<close>

definition qualifies :: "ReferenceLineInfo \<Rightarrow> Obstacle \<Rightarrow> bool" where
  "qualifies rli ob =
     (\<not> IsVirtual ob \<and> HasOverlap (reference_line rli) (PerceptionBoundingBox ob)
      \<and> end_s (PerceptionSLBoundary ob) > start_s (AdcSlBoundary rli))"

definition qualifying_distances :: "Frame \<Rightarrow> double list" where
  "qualifying_distances frame =
     map (\<lambda>ob. start_s (PerceptionSLBoundary ob) - end_s (AdcSlBoundary (front frame)))
       (filter (qualifies (front frame)) (obstacles (front frame)))"

definition spec_nearest_ahead_distance :: "Frame \<Rightarrow> double" where
  "spec_nearest_ahead_distance frame =
     (if qualifying_distances frame = [] then 1000 else Min (set (qualifying_distances frame)))"

text \<open>
  The unsafe virtual marker of the specification's section 4.2: a virtual obstacle whose
  identifier begins with the prefix \<^verbatim>\<open>SP_\<close> and whose start station is at or beyond the
  ego's front edge.
\<close>

definition unsafe_marker :: "double \<Rightarrow> Obstacle \<Rightarrow> bool" where
  "unsafe_marker adc_front_edge_s ob =
     (IsVirtual ob \<and> prefix ''SP_'' (Id_of ob)
      \<and> start_s (PerceptionSLBoundary ob) \<ge> adc_front_edge_s)"

text \<open>Lines 339 to 341: the cartesian point \<^verbatim>\<open>last_xy_point\<close> of the path's end point.\<close>

definition end_point_xy :: "Env \<Rightarrow> Frame \<Rightarrow> Vec2d" where
  "end_point_xy env frame =
     \<lparr>vx = pp_x (EndPoint env (discretized_path (path_data (front frame)))),
      vy = pp_y (EndPoint env (discretized_path (path_data (front frame))))\<rparr>"

subsection \<open>Example scenes\<close>

text \<open>
  Concrete scenes on which the theorems below are instantiated. The reference line has
  lanes 1.8 m wide on both sides, overlaps every box, and converts a cartesian point to the
  station and offset of the same coordinates; the nudge buffer is 0.3. The thresholds are
  those of the specification's scenarios: stop speed 2, stop distance 5, exit margin 3.
\<close>

definition ex_reference_line :: ReferenceLine where
  "ex_reference_line =
     \<lparr>GetLaneWidth = (\<lambda>s. (1.8, 1.8)),
      HasOverlap = (\<lambda>b. True),
      XYToSL = (\<lambda>v. Some \<lparr>sl_s = vx v, sl_l = vy v\<rparr>),
      GetFrenetPoint = (\<lambda>p. \<lparr>fr_s = pp_x p, fr_l = pp_y p\<rparr>)\<rparr>"

definition ex_narrow_lane :: "double \<Rightarrow> double \<times> double" where
  "ex_narrow_lane s = (1.5, 1.8)"

definition ex_box :: Box2d where
  "ex_box = \<lparr>center = \<lparr>vx = 12, vy = 0\<rparr>, box_length = 4, box_width = 2, heading = 0\<rparr>"

definition ex_obstacle ::
  "string \<Rightarrow> bool \<Rightarrow> double \<Rightarrow> double \<Rightarrow> double \<Rightarrow> double \<Rightarrow> Obstacle" where
  "ex_obstacle name virtual s0 s1 l0 l1 =
     \<lparr>Id_of = name, IsVirtual = virtual, IsStatic = True, speed = 0,
      PerceptionSLBoundary = \<lparr>start_s = s0, end_s = s1, start_l = l0, end_l = l1\<rparr>,
      PerceptionBoundingBox = ex_box\<rparr>"

text \<open>
  \<open>ex_parked\<close> is the obstacle of the specification's first scenario, which leaves room
  beside it; \<open>ex_wide\<close> fills the lane; \<open>ex_far\<close> is 2000 m ahead; \<open>ex_beside\<close> overlaps the
  ego's own stations; \<open>ex_near s\<close> starts \<open>s\<close> metres ahead; \<open>ex_marker\<close> is a virtual
  obstacle of the side pass.
\<close>

definition ex_parked :: Obstacle where
  "ex_parked = ex_obstacle ''1'' False 10 14 (- 0.5) 2"

definition ex_wide :: Obstacle where
  "ex_wide = ex_obstacle ''2'' False 10 14 (- 1.5) 1.5"

definition ex_far :: Obstacle where
  "ex_far = ex_obstacle ''3'' False 2000 2004 (- 0.5) 2"

definition ex_beside :: Obstacle where
  "ex_beside = ex_obstacle ''4'' False (- 2) 2 3 5"

definition ex_near :: "double \<Rightarrow> Obstacle" where
  "ex_near s = ex_obstacle ''5'' False s (s + 4) (- 0.5) 2"

definition ex_marker :: Obstacle where
  "ex_marker = ex_obstacle ''SP_1'' True 20 21 (- 2) 2"

definition ex_path :: PathData where
  "ex_path = \<lparr>discretized_path = [\<lparr>pp_x = 0, pp_y = 0\<rparr>, \<lparr>pp_x = 55, pp_y = 0\<rparr>],
              frenet_frame_path = []\<rparr>"

definition ex_no_path :: PathData where
  "ex_no_path = \<lparr>discretized_path = [], frenet_frame_path = []\<rparr>"

definition ex_point :: TrajectoryPoint where
  "ex_point = \<lparr>path_point = \<lparr>pp_x = 0, pp_y = 0\<rparr>\<rparr>"

text \<open>
  The frame of an ego whose front edge is at station \<open>adc_end\<close>, with the obstacles \<open>obs\<close>
  and the speed \<open>v\<close>.
\<close>

definition ex_frame :: "double \<Rightarrow> Obstacle list \<Rightarrow> double \<Rightarrow> Frame" where
  "ex_frame adc_end obs v =
     \<lparr>front = \<lparr>AdcSlBoundary = \<lparr>start_s = adc_end - 4, end_s = adc_end, start_l = - 1, end_l = 1\<rparr>,
               obstacles = obs, reference_line = ex_reference_line, path_data = ex_path,
               trajectory = [ex_point], debug = []\<rparr>,
      linear_velocity = v, PlanningStartPoint = ex_point\<rparr>"

definition ex_no_conversion :: "Frame \<Rightarrow> Frame" where
  "ex_no_conversion frame =
     frame\<lparr>front := (front frame)
       \<lparr>reference_line := (reference_line (front frame))\<lparr>XYToSL := (\<lambda>v. None)\<rparr>\<rparr>\<rparr>"

definition ex_config :: ScenarioConfig where
  "ex_config = \<lparr>block_obstacle_min_speed = 0.1, approach_obstacle_max_stop_speed = 2,
                approach_obstacle_min_stop_distance = 5, side_pass_exit_distance = 3\<rparr>"

definition ex_stage :: "PathData \<Rightarrow> Stage" where
  "ex_stage pd = \<lparr>next_stage = SIDE_PASS_APPROACH_OBSTACLE,
                  GetContext = \<lparr>scenario_config = ex_config, ctx_path_data = pd\<rparr>\<rparr>"

text \<open>
  Three planners: one that succeeds and leaves the frame as it is, one that fails, one that
  succeeds with an empty trajectory.
\<close>

definition plan_keep :: "TrajectoryPoint \<Rightarrow> Frame \<Rightarrow> bool \<times> Frame" where
  "plan_keep p frame = (True, frame)"

definition plan_fail :: "TrajectoryPoint \<Rightarrow> Frame \<Rightarrow> bool \<times> Frame" where
  "plan_fail p frame = (False, frame)"

definition plan_no_trajectory :: "TrajectoryPoint \<Rightarrow> Frame \<Rightarrow> bool \<times> Frame" where
  "plan_no_trajectory p frame = (True, frame\<lparr>front := (front frame)\<lparr>trajectory := []\<rparr>\<rparr>)"

definition ex_env :: "(TrajectoryPoint \<Rightarrow> Frame \<Rightarrow> bool \<times> Frame) \<Rightarrow> Env" where
  "ex_env planner =
     \<lparr>PlanningOnReferenceLine = planner,
      UpdateFrenetFramePath = (\<lambda>rl pd. (True, pd)),
      LeftTrimWithRefS = (\<lambda>s l pd. (True, pd)),
      EndPoint = last,
      FLAGS_static_decision_nudge_l_buffer = 0.3\<rparr>"

section \<open>Properties\<close>

subsection \<open>Auxiliary facts\<close>

lemma backup_blocks_iff:
  "backup_blocks env cfg rli ob \<longleftrightarrow>
     passes_preconditions cfg rli ob \<and>
     \<not> driving_width (FLAGS_static_decision_nudge_l_buffer env)
         (fst (GetLaneWidth (reference_line rli) (start_s (PerceptionSLBoundary ob))))
         (snd (GetLaneWidth (reference_line rli) (start_s (PerceptionSLBoundary ob))))
         (PerceptionSLBoundary ob) > 0.3"
  by (simp add: backup_blocks_def passes_preconditions_def kAdcDistanceThreshold_def
      kLBufferThreshold_def split: prod.splits)

lemma approach_blocks_iff:
  "approach_blocks cfg rli ob \<longleftrightarrow>
     passes_preconditions cfg rli ob \<and>
     \<not> (start_l (PerceptionSLBoundary ob) > 1 \<or> end_l (PerceptionSLBoundary ob) < - 1)"
  by (simp add: approach_blocks_def passes_preconditions_def kAdcDistanceThreshold_def)

text \<open>Both loops find a blocking obstacle exactly when the list holds one.\<close>

lemma backup_has_blocking_obstacle_iff:
  "backup_has_blocking_obstacle env cfg rli obs \<longleftrightarrow> (\<exists>ob \<in> set obs. backup_blocks env cfg rli ob)"
  by (induction obs) auto

lemma approach_has_blocking_obstacle_iff:
  "approach_has_blocking_obstacle cfg rli obs acc \<longleftrightarrow>
     acc \<or> (\<exists>ob \<in> set obs. approach_blocks cfg rli ob)"
  by (induction obs arbitrary: acc) auto

lemma backup_has_blocking_obstacle_planner:
  "backup_has_blocking_obstacle (env\<lparr>PlanningOnReferenceLine := planner\<rparr>) cfg rli obs
     = backup_has_blocking_obstacle env cfg rli obs"
  by (simp add: backup_has_blocking_obstacle_iff backup_blocks_def)

lemma outside_filter_not_passes:
  "outside_filter cfg rli ob \<longleftrightarrow> \<not> passes_preconditions cfg rli ob"
  by (auto simp add: outside_filter_def passes_preconditions_def)

lemma driving_width_mono:
  "l \<le> l' \<Longrightarrow> r \<le> r' \<Longrightarrow> driving_width n l r sl \<le> driving_width n l' r' sl"
  by (simp add: driving_width_def min_def max_def)

text \<open>The hand-off writes the stored path only: the directive and the thresholds stay.\<close>

lemma hand_off_keeps:
  "hand_off env st frame = (ok, st1, frame1) \<Longrightarrow>
     next_stage st1 = next_stage st
     \<and> scenario_config (GetContext st1) = scenario_config (GetContext st)"
  by (auto simp add: hand_off_def split: prod.splits if_splits)

text \<open>The loop of the front obstacle distance is a running minimum over the obstacles that qualify.\<close>

lemma front_obstacle_distance_loop_fold:
  "front_obstacle_distance_loop rli a obs d =
     fold min (map (\<lambda>ob. start_s (PerceptionSLBoundary ob) - a) (filter (qualifies rli) obs)) d"
  by (induction obs arbitrary: d) (auto simp add: qualifies_def min_def)

lemma front_obstacle_distance_Min:
  "front_obstacle_distance frame = Min (insert 1000 (set (qualifying_distances frame)))"
  by (simp add: front_obstacle_distance_def front_obstacle_distance_loop_fold
      qualifying_distances_def Min.set_eq_fold [symmetric])

text \<open>Where no qualifying obstacle is farther than the sentinel, the two minima agree.\<close>

lemma spec_nearest_ahead_distance_agrees:
  "(\<forall>d \<in> set (qualifying_distances frame). d \<le> 1000) \<Longrightarrow>
     Min (insert 1000 (set (qualifying_distances frame))) = spec_nearest_ahead_distance frame"
proof (cases "qualifying_distances frame = []")
  case True
  then show ?thesis by (simp add: spec_nearest_ahead_distance_def)
next
  case False
  assume le: "\<forall>d \<in> set (qualifying_distances frame). d \<le> 1000"
  from False have ne: "set (qualifying_distances frame) \<noteq> {}" by simp
  then have "Min (set (qualifying_distances frame)) \<in> set (qualifying_distances frame)"
    by simp
  with le have m: "Min (set (qualifying_distances frame)) \<le> 1000" by blast
  from ne have "Min (insert 1000 (set (qualifying_distances frame)))
                  = min 1000 (Min (set (qualifying_distances frame)))"
    by simp
  with m False show ?thesis
    by (simp add: spec_nearest_ahead_distance_def)
qed

text \<open>\<^verbatim>\<open>Id().substr(0, 3) == "SP_"\<close> holds exactly of the identifiers that begin with \<^verbatim>\<open>SP_\<close>.\<close>

lemma take_3_prefix: "take 3 xs = ''SP_'' \<longleftrightarrow> prefix ''SP_'' xs"
proof
  assume "take 3 xs = ''SP_''"
  then have "xs = ''SP_'' @ drop 3 xs" by (metis append_take_drop_id)
  then show "prefix ''SP_'' xs" by (metis prefixI)
next
  assume "prefix ''SP_'' xs"
  then obtain zs where "xs = ''SP_'' @ zs" by (auto simp add: prefix_def)
  then show "take 3 xs = ''SP_''" by simp
qed

lemma is_safe_iff:
  "is_safe a obs \<longleftrightarrow> \<not> (\<exists>ob \<in> set obs. unsafe_marker a ob)"
  by (induction obs) (auto simp add: unsafe_marker_def take_3_prefix)

subsection \<open>The lateral test of SidePassBackup\<close>

text \<open>
  C4, as stated, fails. The obstacle of the specification's own first scenario passes every
  precondition of the filter of \<^verbatim>\<open>SidePassBackup\<close> and has a residual driving width of 1.0,
  above the threshold of 0.3, and the filter does not classify it as blocking: line 89
  skips an obstacle whose driving width exceeds the threshold.
\<close>

theorem wide_driving_width_is_not_blocking:
  "passes_preconditions ex_config (front (ex_frame 0 [ex_parked] 0)) ex_parked
   \<and> GetLaneWidth (reference_line (front (ex_frame 0 [ex_parked] 0)))
        (start_s (PerceptionSLBoundary ex_parked)) = (1.8, 1.8)
   \<and> FLAGS_static_decision_nudge_l_buffer (ex_env plan_keep) = 0.3
   \<and> min (1.8 + 1.8) (max (1.8 - end_l (PerceptionSLBoundary ex_parked))
                          (1.8 + start_l (PerceptionSLBoundary ex_parked))) - 0.3 > (0.3::real)
   \<and> \<not> backup_blocks (ex_env plan_keep) ex_config (front (ex_frame 0 [ex_parked] 0)) ex_parked
   \<and> \<not> backup_has_blocking_obstacle (ex_env plan_keep) ex_config
         (front (ex_frame 0 [ex_parked] 0)) [ex_parked]"
  by (simp add: ex_reference_line_def ex_box_def ex_obstacle_def ex_path_def ex_point_def ex_frame_def
      ex_config_def ex_stage_def ex_env_def
      ex_parked_def plan_keep_def passes_preconditions_def backup_blocks_def driving_width_def
      kAdcDistanceThreshold_def kLBufferThreshold_def)

text \<open>
  C4, amended: an obstacle that passes the preconditions of the filter of \<^verbatim>\<open>SidePassBackup\<close>
  (sensed, static, not faster than the cutoff, ahead of the ego's end station, within the
  15 m window) is classified as a lateral blocker exactly when the residual driving width
  \<open>min (left + right) (max (left - end_l) (right + start_l)) - nudge_buffer\<close>, with the lane
  widths at the obstacle's start station, does not exceed the threshold of 0.3.
\<close>

theorem backup_blocks_iff_driving_width_small:
  assumes "passes_preconditions cfg rli ob"
    and "GetLaneWidth (reference_line rli) (start_s (PerceptionSLBoundary ob))
           = (lane_left_width, lane_right_width)"
  shows "backup_blocks env cfg rli ob \<longleftrightarrow>
           \<not> min (lane_left_width + lane_right_width)
                 (max (lane_left_width - end_l (PerceptionSLBoundary ob))
                      (lane_right_width + start_l (PerceptionSLBoundary ob)))
               - FLAGS_static_decision_nudge_l_buffer env > 0.3"
  using assms by (simp add: backup_blocks_iff driving_width_def)

text \<open>
  The amended C4 on two obstacles: the one that fills the lane is blocking, the one that
  leaves room is not.
\<close>

theorem backup_blocks_iff_driving_width_small_witness:
  "passes_preconditions ex_config (front (ex_frame 0 [ex_wide] 0)) ex_wide
   \<and> backup_blocks (ex_env plan_keep) ex_config (front (ex_frame 0 [ex_wide] 0)) ex_wide
   \<and> \<not> backup_blocks (ex_env plan_keep) ex_config (front (ex_frame 0 [ex_parked] 0)) ex_parked"
proof -
  have p1: "passes_preconditions ex_config (front (ex_frame 0 [ex_wide] 0)) ex_wide"
    by (simp add: ex_reference_line_def ex_box_def ex_obstacle_def ex_path_def ex_point_def ex_frame_def
      ex_config_def ex_stage_def ex_env_def
      ex_parked_def ex_wide_def plan_keep_def passes_preconditions_def)
  have g1: "GetLaneWidth (reference_line (front (ex_frame 0 [ex_wide] 0)))
              (start_s (PerceptionSLBoundary ex_wide)) = (1.8, 1.8)"
    by (simp add: ex_reference_line_def ex_box_def ex_obstacle_def ex_path_def ex_point_def ex_frame_def
      ex_config_def ex_stage_def ex_env_def
      ex_parked_def ex_wide_def plan_keep_def)
  have p2: "passes_preconditions ex_config (front (ex_frame 0 [ex_parked] 0)) ex_parked"
    by (simp add: ex_reference_line_def ex_box_def ex_obstacle_def ex_path_def ex_point_def ex_frame_def
      ex_config_def ex_stage_def ex_env_def
      ex_parked_def ex_wide_def plan_keep_def passes_preconditions_def)
  have g2: "GetLaneWidth (reference_line (front (ex_frame 0 [ex_parked] 0)))
              (start_s (PerceptionSLBoundary ex_parked)) = (1.8, 1.8)"
    by (simp add: ex_reference_line_def ex_box_def ex_obstacle_def ex_path_def ex_point_def ex_frame_def
      ex_config_def ex_stage_def ex_env_def
      ex_parked_def ex_wide_def plan_keep_def)
  show ?thesis
    using p1 backup_blocks_iff_driving_width_small [OF p1 g1, of "ex_env plan_keep"]
      backup_blocks_iff_driving_width_small [OF p2 g2, of "ex_env plan_keep"]
    by (simp add: ex_reference_line_def ex_box_def ex_obstacle_def ex_path_def ex_point_def ex_frame_def
      ex_config_def ex_stage_def ex_env_def
      ex_parked_def ex_wide_def plan_keep_def)
qed

subsection \<open>The filters skip what lies outside their window\<close>

text \<open>
  C8: an obstacle that is outside the 15 m forward window, or behind the ego (start station
  not greater than the ego's end station), or non-static, or virtual, or faster than the
  speed cutoff is classified as blocking neither by the filter of \<^verbatim>\<open>SidePassBackup\<close> nor by
  the filter of \<^verbatim>\<open>SidePassApproachObstacle\<close>, whatever its lateral position; and for every
  list of obstacles, either filter finds a blocking obstacle in the list exactly when it
  finds one after all such obstacles are removed.
\<close>

theorem obstacles_outside_filter_never_block:
  "(\<forall>ob. outside_filter cfg rli ob \<longrightarrow>
         \<not> backup_blocks env cfg rli ob \<and> \<not> approach_blocks cfg rli ob)
   \<and> backup_has_blocking_obstacle env cfg rli obs
     = backup_has_blocking_obstacle env cfg rli (filter (\<lambda>ob. \<not> outside_filter cfg rli ob) obs)
   \<and> approach_has_blocking_obstacle cfg rli obs False
     = approach_has_blocking_obstacle cfg rli (filter (\<lambda>ob. \<not> outside_filter cfg rli ob) obs)
         False"
proof -
  have b: "\<not> backup_blocks env cfg rli ob" and a: "\<not> approach_blocks cfg rli ob"
    if "outside_filter cfg rli ob" for ob
    using that
    by (simp_all add: backup_blocks_iff approach_blocks_iff outside_filter_not_passes)
  show ?thesis
    using a b
    by (auto simp add: backup_has_blocking_obstacle_iff approach_has_blocking_obstacle_iff)
qed

text \<open>
  C8 on a scene with an obstacle 2000 m ahead and one that fills the lane 10 m ahead: the
  far one is outside the window and is not blocking, and the filter answers as it does
  without it.
\<close>

theorem obstacles_outside_filter_never_block_witness:
  "outside_filter ex_config (front (ex_frame 0 [ex_far, ex_wide] 0)) ex_far
   \<and> \<not> backup_blocks (ex_env plan_keep) ex_config (front (ex_frame 0 [ex_far, ex_wide] 0)) ex_far
   \<and> \<not> approach_blocks ex_config (front (ex_frame 0 [ex_far, ex_wide] 0)) ex_far
   \<and> backup_has_blocking_obstacle (ex_env plan_keep) ex_config
        (front (ex_frame 0 [ex_far, ex_wide] 0)) [ex_far, ex_wide]
       = backup_has_blocking_obstacle (ex_env plan_keep) ex_config
        (front (ex_frame 0 [ex_far, ex_wide] 0)) [ex_wide]"
proof -
  have o: "outside_filter ex_config (front (ex_frame 0 [ex_far, ex_wide] 0)) ex_far"
    by (simp add: outside_filter_def ex_reference_line_def ex_box_def ex_obstacle_def ex_path_def ex_point_def ex_frame_def
      ex_config_def ex_stage_def ex_env_def
      ex_far_def ex_wide_def plan_keep_def)
  have w: "\<not> outside_filter ex_config (front (ex_frame 0 [ex_far, ex_wide] 0)) ex_wide"
    by (simp add: outside_filter_def ex_reference_line_def ex_box_def ex_obstacle_def ex_path_def ex_point_def ex_frame_def
      ex_config_def ex_stage_def ex_env_def
      ex_far_def ex_wide_def plan_keep_def)
  show ?thesis
    using obstacles_outside_filter_never_block [of ex_config
        "front (ex_frame 0 [ex_far, ex_wide] 0)" "ex_env plan_keep" "[ex_far, ex_wide]"] o w
    by simp
qed

subsection \<open>Narrower lanes\<close>

text \<open>
  C9: for a fixed obstacle boundary and a fixed nudge buffer the driving width is monotone
  non-decreasing in the left and in the right lane width; hence an obstacle that
  \<^verbatim>\<open>SidePassBackup\<close> classifies as blocking is still classified as blocking when the lane
  widths at its start station are decreased.
\<close>

theorem driving_width_monotone:
  assumes "l \<le> l'" and "r \<le> r'"
  shows "driving_width n l r sl \<le> driving_width n l' r' sl
         \<and> (GetLaneWidth (reference_line rli) (start_s (PerceptionSLBoundary ob)) = (l', r')
              \<and> g (start_s (PerceptionSLBoundary ob)) = (l, r)
              \<and> backup_blocks env cfg rli ob
            \<longrightarrow> backup_blocks env cfg (set_lane_width g rli) ob)"
proof -
  have m: "driving_width k l r b \<le> driving_width k l' r' b" for k b
    using assms by (rule driving_width_mono)
  show ?thesis
    using m [of "FLAGS_static_decision_nudge_l_buffer env" "PerceptionSLBoundary ob"] m [of n sl]
    by (auto simp add: backup_blocks_iff set_lane_width_def passes_preconditions_def)
qed

text \<open>
  C9 on the obstacle that fills a lane of widths 1.8 and 1.8: it is blocking, and stays
  blocking when the left width shrinks to 1.5.
\<close>

theorem driving_width_monotone_witness:
  "(1.5::real) \<le> 1.8 \<and> (1.8::real) \<le> 1.8
   \<and> backup_blocks (ex_env plan_keep) ex_config (front (ex_frame 0 [ex_wide] 0)) ex_wide
   \<and> backup_blocks (ex_env plan_keep) ex_config
        (set_lane_width ex_narrow_lane (front (ex_frame 0 [ex_wide] 0))) ex_wide
   \<and> driving_width 0.3 1.5 1.8 (PerceptionSLBoundary ex_wide)
       \<le> driving_width 0.3 1.8 1.8 (PerceptionSLBoundary ex_wide)"
proof -
  have l: "(1.5::real) \<le> 1.8" and r: "(1.8::real) \<le> 1.8"
    by simp_all
  have b: "backup_blocks (ex_env plan_keep) ex_config (front (ex_frame 0 [ex_wide] 0)) ex_wide"
    by (simp add: backup_blocks_def driving_width_def kAdcDistanceThreshold_def
        kLBufferThreshold_def ex_reference_line_def ex_box_def ex_obstacle_def ex_path_def ex_point_def ex_frame_def
      ex_config_def ex_stage_def ex_env_def
      ex_wide_def plan_keep_def)
  have g: "GetLaneWidth (reference_line (front (ex_frame 0 [ex_wide] 0)))
             (start_s (PerceptionSLBoundary ex_wide)) = (1.8, 1.8)"
    by (simp add: ex_reference_line_def ex_box_def ex_obstacle_def ex_path_def ex_point_def ex_frame_def
      ex_config_def ex_stage_def ex_env_def
      ex_wide_def plan_keep_def)
  have n: "ex_narrow_lane (start_s (PerceptionSLBoundary ex_wide)) = (1.5, 1.8)"
    by (simp add: ex_narrow_lane_def)
  show ?thesis
    using driving_width_monotone [OF l r, of "0.3" "PerceptionSLBoundary ex_wide"
        "front (ex_frame 0 [ex_wide] 0)" ex_wide ex_narrow_lane "ex_env plan_keep" ex_config]
      b g n
    by simp
qed

subsection \<open>No blocking obstacle\<close>

text \<open>
  C10: in a scene where the entry filter of \<^verbatim>\<open>SidePassBackup\<close> (respectively of
  \<^verbatim>\<open>SidePassApproachObstacle\<close>) finds no blocking obstacle, the stage returns FINISHED with
  the directive \<^verbatim>\<open>NO_STAGE\<close>, whatever the planner is: the planner is not run, the frame
  (its working path and its debug record) is returned as it was, and nothing of the stage
  but the directive changes, so the stored path of the context is as it was.
\<close>

theorem no_blocker_finishes_without_replan:
  "(\<not> backup_has_blocking_obstacle env (scenario_config (GetContext st)) (front frame)
        (obstacles (front frame)) \<longrightarrow>
     SidePassBackup_Process (env\<lparr>PlanningOnReferenceLine := planner\<rparr>) planning_start_point st frame
       = (FINISHED, st\<lparr>next_stage := NO_STAGE\<rparr>, frame))
   \<and> (\<not> approach_has_blocking_obstacle (scenario_config (GetContext st)) (front frame)
        (obstacles (front frame)) False \<longrightarrow>
     SidePassApproachObstacle_Process (env\<lparr>PlanningOnReferenceLine := planner\<rparr>)
         planning_start_point st frame
       = (FINISHED, st\<lparr>next_stage := NO_STAGE\<rparr>, frame))"
  by (simp add: SidePassBackup_Process_def SidePassApproachObstacle_Process_def
      backup_has_blocking_obstacle_planner)

text \<open>
  C10 on two scenes without a blocking obstacle, with a planner that would fail: both
  stages finish with \<^verbatim>\<open>NO_STAGE\<close> and return the frame and the stored path unchanged.
\<close>

theorem no_blocker_finishes_without_replan_witness:
  "\<not> backup_has_blocking_obstacle (ex_env plan_keep) ex_config
        (front (ex_frame 0 [ex_far, ex_parked] 0)) [ex_far, ex_parked]
   \<and> SidePassBackup_Process (ex_env plan_fail) ex_point (ex_stage ex_path)
        (ex_frame 0 [ex_far, ex_parked] 0)
       = (FINISHED, (ex_stage ex_path)\<lparr>next_stage := NO_STAGE\<rparr>,
          ex_frame 0 [ex_far, ex_parked] 0)
   \<and> \<not> approach_has_blocking_obstacle ex_config
        (front (ex_frame 0 [ex_far] 0)) [ex_far] False
   \<and> SidePassApproachObstacle_Process (ex_env plan_fail) ex_point (ex_stage ex_path)
        (ex_frame 0 [ex_far] 0)
       = (FINISHED, (ex_stage ex_path)\<lparr>next_stage := NO_STAGE\<rparr>, ex_frame 0 [ex_far] 0)"
proof -
  have b: "\<not> backup_has_blocking_obstacle (ex_env plan_keep) ex_config
        (front (ex_frame 0 [ex_far, ex_parked] 0)) [ex_far, ex_parked]"
    by (simp add: backup_blocks_def driving_width_def kAdcDistanceThreshold_def
        kLBufferThreshold_def ex_reference_line_def ex_box_def ex_obstacle_def ex_path_def ex_point_def ex_frame_def
      ex_config_def ex_stage_def ex_env_def
      ex_far_def ex_parked_def plan_keep_def plan_fail_def)
  have a: "\<not> approach_has_blocking_obstacle ex_config
        (front (ex_frame 0 [ex_far] 0)) [ex_far] False"
    by (simp add: approach_blocks_def kAdcDistanceThreshold_def ex_reference_line_def ex_box_def ex_obstacle_def ex_path_def ex_point_def ex_frame_def
      ex_config_def ex_stage_def ex_env_def
      ex_far_def ex_parked_def plan_keep_def plan_fail_def)
  have e: "(ex_env plan_keep)\<lparr>PlanningOnReferenceLine := plan_fail\<rparr> = ex_env plan_fail"
    by (simp add: ex_env_def)
  have c: "scenario_config (GetContext (ex_stage ex_path)) = ex_config"
    by (simp add: ex_stage_def)
  have ob: "obstacles (front (ex_frame 0 obs 0)) = obs" for obs
    by (simp add: ex_frame_def)
  show ?thesis
    using no_blocker_finishes_without_replan [of "ex_env plan_keep" "ex_stage ex_path"
        "ex_frame 0 [ex_far, ex_parked] 0" plan_fail ex_point]
      no_blocker_finishes_without_replan [of "ex_env plan_keep" "ex_stage ex_path"
        "ex_frame 0 [ex_far] 0" plan_fail ex_point] a b
    by (simp add: e c ob)
qed

subsection \<open>The directives of the five stages\<close>

text \<open>
  C1: the next-stage directives are confined to the transition table. For every stage,
  every collaborator and every frame: a cycle that returns FINISHED leaves in
  \<^verbatim>\<open>next_stage_\<close> a directive the table lists for that stage, and a cycle that returns
  RUNNING or ERROR leaves \<^verbatim>\<open>next_stage_\<close> as it was. \<^verbatim>\<open>SidePassGeneratePath\<close> sets
  \<^verbatim>\<open>SIDE_PASS_STOP_ON_WAITPOINT\<close> (the specification's \<^verbatim>\<open>DETECT_SAFETY\<close>) only after a
  successful replan with a non-empty trajectory and \<^verbatim>\<open>SIDE_PASS_BACKUP\<close> only after a failed
  replan; \<^verbatim>\<open>SidePassDetectSafety\<close> sets \<^verbatim>\<open>SIDE_PASS_PASS_OBSTACLE\<close> only when the path is
  safe, and sets nothing otherwise.
\<close>

theorem phase_directives_in_transition_table:
  assumes "Process c env p st frame = (status, st', frame')"
  shows "(status = FINISHED \<longrightarrow> next_stage st' \<in> spec_transition_table c)
     \<and> (status \<noteq> FINISHED \<longrightarrow> next_stage st' = next_stage st)
     \<and> (c = SidePassGeneratePath \<longrightarrow>
          (status = FINISHED \<and> next_stage st' = SIDE_PASS_STOP_ON_WAITPOINT
             \<and> fst (PlanningOnReferenceLine env p frame) \<and> trajectory (front frame') \<noteq> [])
          \<or> (status = FINISHED \<and> next_stage st' = SIDE_PASS_BACKUP
             \<and> \<not> fst (PlanningOnReferenceLine env p frame))
          \<or> (status = RUNNING \<and> next_stage st' = next_stage st))
     \<and> (c = SidePassDetectSafety \<longrightarrow>
          (status = FINISHED \<and> next_stage st' = SIDE_PASS_PASS_OBSTACLE
             \<and> is_safe (end_s (AdcSlBoundary (front frame'))) (obstacles (front frame')))
          \<or> (status \<noteq> FINISHED \<and> next_stage st' = next_stage st))"
proof (cases c)
  case SidePassBackup
  with assms show ?thesis
    by (auto simp add: SidePassBackup_Process_def spec_transition_table_def
        split: prod.splits if_splits)
next
  case SidePassApproachObstacle
  with assms show ?thesis
    by (auto simp add: SidePassApproachObstacle_Process_def spec_transition_table_def
        split: prod.splits if_splits)
next
  case SidePassGeneratePath
  with assms show ?thesis
    by (auto simp add: SidePassGeneratePath_Process_def spec_transition_table_def Let_def
        split: prod.splits if_splits)
next
  case SidePassDetectSafety
  with assms show ?thesis
    by (auto simp add: SidePassDetectSafety_Process_def spec_transition_table_def
        split: prod.splits if_splits dest: hand_off_keeps)
next
  case SidePassPassObstacle
  with assms show ?thesis
    by (auto simp add: SidePassPassObstacle_Process_def spec_transition_table_def
        split: prod.splits if_splits option.splits dest: hand_off_keeps)
qed

text \<open>
  C1 on three cycles: \<^verbatim>\<open>SidePassGeneratePath\<close> finishing with a directive of its row,
  \<^verbatim>\<open>SidePassBackup\<close> running on, and \<^verbatim>\<open>SidePassDetectSafety\<close> running on in front of a
  marker, both with the directive untouched.
\<close>

theorem phase_directives_in_transition_table_witness:
  "Process SidePassGeneratePath (ex_env plan_keep) ex_point (ex_stage ex_no_path)
       (ex_frame 0 [] 0)
     = (FINISHED, (ex_stage ex_path)\<lparr>next_stage := SIDE_PASS_STOP_ON_WAITPOINT\<rparr>,
        ex_frame 0 [] 0)
   \<and> SIDE_PASS_STOP_ON_WAITPOINT \<in> spec_transition_table SidePassGeneratePath
   \<and> fst (Process SidePassBackup (ex_env plan_keep) ex_point (ex_stage ex_no_path)
            (ex_frame 0 [ex_wide] 0)) = RUNNING
   \<and> next_stage (fst (snd (Process SidePassBackup (ex_env plan_keep) ex_point
            (ex_stage ex_no_path) (ex_frame 0 [ex_wide] 0))))
       = next_stage (ex_stage ex_no_path)
   \<and> fst (Process SidePassDetectSafety (ex_env plan_keep) ex_point (ex_stage ex_path)
            (ex_frame 0 [ex_marker] 0)) = RUNNING
   \<and> next_stage (fst (snd (Process SidePassDetectSafety (ex_env plan_keep) ex_point
            (ex_stage ex_path) (ex_frame 0 [ex_marker] 0))))
       = next_stage (ex_stage ex_path)"
proof -
  have g: "Process SidePassGeneratePath (ex_env plan_keep) ex_point (ex_stage ex_no_path)
       (ex_frame 0 [] 0)
     = (FINISHED, (ex_stage ex_path)\<lparr>next_stage := SIDE_PASS_STOP_ON_WAITPOINT\<rparr>,
        ex_frame 0 [] 0)"
    by (simp add: SidePassGeneratePath_Process_def ex_reference_line_def ex_box_def ex_obstacle_def ex_path_def ex_point_def ex_frame_def
      ex_config_def ex_stage_def ex_env_def
      ex_wide_def ex_marker_def ex_no_path_def plan_keep_def)
  have b: "Process SidePassBackup (ex_env plan_keep) ex_point (ex_stage ex_no_path)
       (ex_frame 0 [ex_wide] 0) = (RUNNING, ex_stage ex_no_path, ex_frame 0 [ex_wide] 0)"
    by (simp add: SidePassBackup_Process_def backup_blocks_def driving_width_def
        kAdcDistanceThreshold_def kLBufferThreshold_def ex_reference_line_def ex_box_def ex_obstacle_def ex_path_def ex_point_def ex_frame_def
      ex_config_def ex_stage_def ex_env_def
      ex_wide_def ex_marker_def ex_no_path_def plan_keep_def)
  have d: "Process SidePassDetectSafety (ex_env plan_keep) ex_point (ex_stage ex_path)
       (ex_frame 0 [ex_marker] 0)
     = (RUNNING, ex_stage ex_path,
        snd (snd (hand_off (ex_env plan_keep) (ex_stage ex_path) (ex_frame 0 [ex_marker] 0))))"
    by (simp add: SidePassDetectSafety_Process_def hand_off_def ex_reference_line_def ex_box_def ex_obstacle_def ex_path_def ex_point_def ex_frame_def
      ex_config_def ex_stage_def ex_env_def
      ex_wide_def ex_marker_def ex_no_path_def plan_keep_def)
  show ?thesis
    using phase_directives_in_transition_table [OF g] phase_directives_in_transition_table [OF b]
      phase_directives_in_transition_table [OF d] g b d
    by simp
qed

subsection \<open>SidePassGeneratePath\<close>

text \<open>
  C2, as stated, fails in its last part. With a planner that succeeds and returns an empty
  trajectory the stage returns RUNNING, and the path of the context, empty before the
  cycle, is the frame's path after it: line 221 stores the path before line 222 looks at
  the trajectory.
\<close>

theorem generate_path_stores_path_when_trajectory_empty:
  "fst (PlanningOnReferenceLine (ex_env plan_no_trajectory) ex_point (ex_frame 0 [] 0))
   \<and> trajectory (front (snd (PlanningOnReferenceLine (ex_env plan_no_trajectory) ex_point
                                (ex_frame 0 [] 0)))) = []
   \<and> fst (SidePassGeneratePath_Process (ex_env plan_no_trajectory) ex_point
            (ex_stage ex_no_path) (ex_frame 0 [] 0)) = RUNNING
   \<and> ctx_path_data (GetContext (fst (snd (SidePassGeneratePath_Process
          (ex_env plan_no_trajectory) ex_point (ex_stage ex_no_path) (ex_frame 0 [] 0)))))
       \<noteq> ctx_path_data (GetContext (ex_stage ex_no_path))"
  by (simp add: ex_reference_line_def ex_box_def ex_obstacle_def ex_path_def ex_point_def ex_frame_def
      ex_config_def ex_stage_def ex_env_def
      ex_no_path_def plan_no_trajectory_def SidePassGeneratePath_Process_def)

text \<open>
  C2, amended: in \<^verbatim>\<open>SidePassGeneratePath\<close>, for every scene, if the replan fails the stage
  returns FINISHED with the directive \<^verbatim>\<open>SIDE_PASS_BACKUP\<close> (never ERROR) and the stored path
  is unchanged; if the replan succeeds and the trajectory has at least one point, the
  frame's path is stored in the context and the stage returns FINISHED with the directive
  \<^verbatim>\<open>SIDE_PASS_STOP_ON_WAITPOINT\<close> (the specification's \<^verbatim>\<open>DETECT_SAFETY\<close>); if the replan
  succeeds and the trajectory is empty, the stage returns RUNNING with the directive
  untouched, and the frame's path is stored in the context as well. The stored path is
  written whenever the replan succeeds and left unchanged only when it fails.
\<close>

theorem generate_path_outcomes:
  assumes "PlanningOnReferenceLine env p frame = (plan_ok, frame')"
    and "SidePassGeneratePath_Process env p st frame = (status, st', frame'')"
  shows "frame'' = frame'
     \<and> scenario_config (GetContext st') = scenario_config (GetContext st)
     \<and> (\<not> plan_ok \<longrightarrow>
          status = FINISHED \<and> next_stage st' = SIDE_PASS_BACKUP
          \<and> ctx_path_data (GetContext st') = ctx_path_data (GetContext st))
     \<and> (plan_ok \<and> length (trajectory (front frame')) \<ge> 1 \<longrightarrow>
          status = FINISHED \<and> next_stage st' = SIDE_PASS_STOP_ON_WAITPOINT
          \<and> ctx_path_data (GetContext st') = path_data (front frame'))
     \<and> (plan_ok \<and> trajectory (front frame') = [] \<longrightarrow>
          status = RUNNING \<and> next_stage st' = next_stage st
          \<and> ctx_path_data (GetContext st') = path_data (front frame'))"
  using assms
  by (auto simp add: SidePassGeneratePath_Process_def Let_def split: if_splits)

text \<open>The amended C2 on the three planners: failing, succeeding, succeeding without a trajectory.\<close>

theorem generate_path_outcomes_witness:
  "SidePassGeneratePath_Process (ex_env plan_fail) ex_point (ex_stage ex_no_path)
       (ex_frame 0 [] 0)
     = (FINISHED, (ex_stage ex_no_path)\<lparr>next_stage := SIDE_PASS_BACKUP\<rparr>, ex_frame 0 [] 0)
   \<and> SidePassGeneratePath_Process (ex_env plan_keep) ex_point (ex_stage ex_no_path)
       (ex_frame 0 [] 0)
     = (FINISHED, (ex_stage ex_path)\<lparr>next_stage := SIDE_PASS_STOP_ON_WAITPOINT\<rparr>,
        ex_frame 0 [] 0)
   \<and> SidePassGeneratePath_Process (ex_env plan_no_trajectory) ex_point
       (ex_stage ex_no_path) (ex_frame 0 [] 0)
     = (RUNNING, ex_stage ex_path, snd (plan_no_trajectory ex_point (ex_frame 0 [] 0)))"
proof -
  have f: "PlanningOnReferenceLine (ex_env plan_fail) ex_point (ex_frame 0 [] 0)
             = (False, ex_frame 0 [] 0)"
    by (simp add: ex_reference_line_def ex_box_def ex_obstacle_def ex_path_def ex_point_def ex_frame_def
      ex_config_def ex_stage_def ex_env_def
      ex_no_path_def plan_keep_def plan_fail_def plan_no_trajectory_def)
  have k: "PlanningOnReferenceLine (ex_env plan_keep) ex_point (ex_frame 0 [] 0)
             = (True, ex_frame 0 [] 0)"
    by (simp add: ex_reference_line_def ex_box_def ex_obstacle_def ex_path_def ex_point_def ex_frame_def
      ex_config_def ex_stage_def ex_env_def
      ex_no_path_def plan_keep_def plan_fail_def plan_no_trajectory_def)
  have n: "PlanningOnReferenceLine (ex_env plan_no_trajectory) ex_point (ex_frame 0 [] 0)
             = (True, snd (plan_no_trajectory ex_point (ex_frame 0 [] 0)))"
    by (simp add: ex_reference_line_def ex_box_def ex_obstacle_def ex_path_def ex_point_def ex_frame_def
      ex_config_def ex_stage_def ex_env_def
      ex_no_path_def plan_keep_def plan_fail_def plan_no_trajectory_def)
  have pf: "SidePassGeneratePath_Process (ex_env plan_fail) ex_point (ex_stage ex_no_path)
       (ex_frame 0 [] 0)
     = (FINISHED, (ex_stage ex_no_path)\<lparr>next_stage := SIDE_PASS_BACKUP\<rparr>, ex_frame 0 [] 0)"
    by (simp add: SidePassGeneratePath_Process_def ex_reference_line_def ex_box_def ex_obstacle_def ex_path_def ex_point_def ex_frame_def
      ex_config_def ex_stage_def ex_env_def
      ex_no_path_def plan_keep_def plan_fail_def plan_no_trajectory_def)
  have pk: "SidePassGeneratePath_Process (ex_env plan_keep) ex_point (ex_stage ex_no_path)
       (ex_frame 0 [] 0)
     = (FINISHED, (ex_stage ex_path)\<lparr>next_stage := SIDE_PASS_STOP_ON_WAITPOINT\<rparr>,
        ex_frame 0 [] 0)"
    by (simp add: SidePassGeneratePath_Process_def ex_reference_line_def ex_box_def ex_obstacle_def ex_path_def ex_point_def ex_frame_def
      ex_config_def ex_stage_def ex_env_def
      ex_no_path_def plan_keep_def plan_fail_def plan_no_trajectory_def)
  have pn: "SidePassGeneratePath_Process (ex_env plan_no_trajectory) ex_point
       (ex_stage ex_no_path) (ex_frame 0 [] 0)
     = (RUNNING, ex_stage ex_path, snd (plan_no_trajectory ex_point (ex_frame 0 [] 0)))"
    by (simp add: SidePassGeneratePath_Process_def ex_reference_line_def ex_box_def ex_obstacle_def ex_path_def ex_point_def ex_frame_def
      ex_config_def ex_stage_def ex_env_def
      ex_no_path_def plan_keep_def plan_fail_def plan_no_trajectory_def)
  show ?thesis
    using generate_path_outcomes [OF f pf] generate_path_outcomes [OF k pk]
      generate_path_outcomes [OF n pn] pf pk pn
    by simp
qed

subsection \<open>SidePassApproachObstacle\<close>

text \<open>
  C5: in \<^verbatim>\<open>SidePassApproachObstacle\<close>, once a blocking obstacle is found, the replan has
  succeeded and the front obstacle distance is not negative, the stage returns FINISHED
  with the directive \<^verbatim>\<open>SIDE_PASS_GENERATE_PATH\<close> exactly when the ego's speed is strictly
  below the approach stop speed and the distance strictly exceeds the minimum stop
  distance; otherwise it returns RUNNING and sets nothing.
\<close>

theorem approach_obstacle_stop_condition:
  assumes "approach_has_blocking_obstacle (scenario_config (GetContext st)) (front frame)
             (obstacles (front frame)) False"
    and "PlanningOnReferenceLine env p frame = (True, frame')"
    and "front_obstacle_distance frame' \<ge> 0"
  shows "SidePassApproachObstacle_Process env p st frame =
           (if linear_velocity frame'
                 < approach_obstacle_max_stop_speed (scenario_config (GetContext st))
               \<and> front_obstacle_distance frame'
                 > approach_obstacle_min_stop_distance (scenario_config (GetContext st))
            then (FINISHED, st\<lparr>next_stage := SIDE_PASS_GENERATE_PATH\<rparr>, frame')
            else (RUNNING, st, frame'))"
  using assms by (simp add: SidePassApproachObstacle_Process_def)

text \<open>
  C5 on the specification's scenario: at speed 1 (below 2) an obstacle 6 m ahead (beyond
  5 m) sends the stage to \<^verbatim>\<open>SIDE_PASS_GENERATE_PATH\<close>, an obstacle 3 m ahead keeps it
  running.
\<close>

theorem approach_obstacle_stop_condition_witness:
  "SidePassApproachObstacle_Process (ex_env plan_keep) ex_point (ex_stage ex_no_path)
       (ex_frame 0 [ex_near 6] 1)
     = (FINISHED, (ex_stage ex_no_path)\<lparr>next_stage := SIDE_PASS_GENERATE_PATH\<rparr>,
        ex_frame 0 [ex_near 6] 1)
   \<and> SidePassApproachObstacle_Process (ex_env plan_keep) ex_point (ex_stage ex_no_path)
       (ex_frame 0 [ex_near 3] 1)
     = (RUNNING, ex_stage ex_no_path, ex_frame 0 [ex_near 3] 1)"
proof -
  have b: "approach_has_blocking_obstacle (scenario_config (GetContext (ex_stage ex_no_path)))
             (front (ex_frame 0 [ex_near s] 1)) (obstacles (front (ex_frame 0 [ex_near s] 1)))
             False" if "0 < s" and "s \<le> 15" for s
    using that by (simp add: approach_blocks_def kAdcDistanceThreshold_def ex_reference_line_def ex_box_def ex_obstacle_def ex_path_def ex_point_def ex_frame_def
      ex_config_def ex_stage_def ex_env_def
      ex_near_def ex_no_path_def plan_keep_def)
  have k: "PlanningOnReferenceLine (ex_env plan_keep) ex_point frame = (True, frame)" for frame
    by (simp add: ex_reference_line_def ex_box_def ex_obstacle_def ex_path_def ex_point_def ex_frame_def
      ex_config_def ex_stage_def ex_env_def
      ex_near_def ex_no_path_def plan_keep_def)
  have d: "front_obstacle_distance (ex_frame 0 [ex_near s] 1) = s" if "0 < s" and "s \<le> 15" for s
    using that by (simp add: front_obstacle_distance_def ex_reference_line_def ex_box_def ex_obstacle_def ex_path_def ex_point_def ex_frame_def
      ex_config_def ex_stage_def ex_env_def
      ex_near_def ex_no_path_def plan_keep_def)
  have d6: "0 \<le> front_obstacle_distance (ex_frame 0 [ex_near 6] 1)"
    by (simp add: d)
  have d3: "0 \<le> front_obstacle_distance (ex_frame 0 [ex_near 3] 1)"
    by (simp add: d)
  show ?thesis
    using approach_obstacle_stop_condition [OF b k d6]
      approach_obstacle_stop_condition [OF b k d3] d [of 6] d [of 3]
    by (simp add: ex_stage_def ex_config_def ex_frame_def)
qed

text \<open>
  C6, as stated, fails in its first part. With a single qualifying obstacle 2000 m ahead the
  minimum of the distances of the qualifying obstacles is 2000, and the front obstacle
  distance the stage computes is 1000: the loop starts from the sentinel and only goes
  down.
\<close>

theorem front_obstacle_distance_capped_by_sentinel:
  "qualifying_distances (ex_frame 0 [ex_far] 0) = [2000]
   \<and> spec_nearest_ahead_distance (ex_frame 0 [ex_far] 0) = 2000
   \<and> front_obstacle_distance (ex_frame 0 [ex_far] 0) = 1000"
  by (simp add: ex_reference_line_def ex_box_def ex_obstacle_def ex_path_def ex_point_def ex_frame_def
      ex_config_def ex_stage_def ex_env_def
      ex_far_def spec_nearest_ahead_distance_def qualifying_distances_def qualifies_def
      front_obstacle_distance_def)

text \<open>
  C6, amended: in \<^verbatim>\<open>SidePassApproachObstacle\<close> the front obstacle distance is the minimum of
  the sentinel 1000 and of \<open>start_s - ego end_s\<close> over the sensed obstacles whose box
  overlaps the reference line and whose end station strictly exceeds the ego's start
  station. It is the minimum over the qualifying obstacles, or the sentinel when none
  qualifies, whenever no qualifying obstacle is farther than 1000. Whenever the value the
  stage computes is negative the stage returns ERROR; the value is the plain minimum,
  negative values included, and is not clamped.
\<close>

theorem front_obstacle_distance_min_and_error:
  "front_obstacle_distance frame' = Min (insert 1000 (set (qualifying_distances frame')))
   \<and> ((\<forall>d \<in> set (qualifying_distances frame'). d \<le> 1000) \<longrightarrow>
         front_obstacle_distance frame' = spec_nearest_ahead_distance frame')
   \<and> (approach_has_blocking_obstacle (scenario_config (GetContext st)) (front frame)
         (obstacles (front frame)) False
       \<and> PlanningOnReferenceLine env p frame = (True, frame')
       \<and> front_obstacle_distance frame' < 0
      \<longrightarrow> SidePassApproachObstacle_Process env p st frame = (ERROR, st, frame'))"
  by (simp add: SidePassApproachObstacle_Process_def front_obstacle_distance_Min
      spec_nearest_ahead_distance_agrees)

text \<open>
  The amended C6 on a scene with a blocking obstacle 10 m ahead and an obstacle that starts
  2 m behind the ego's front edge: the distance is -2 and the stage returns ERROR.
\<close>

theorem front_obstacle_distance_min_and_error_witness:
  "front_obstacle_distance (ex_frame 0 [ex_wide, ex_beside] 0) = - 2
   \<and> spec_nearest_ahead_distance (ex_frame 0 [ex_wide, ex_beside] 0) = - 2
   \<and> SidePassApproachObstacle_Process (ex_env plan_keep) ex_point (ex_stage ex_no_path)
       (ex_frame 0 [ex_wide, ex_beside] 0)
     = (ERROR, ex_stage ex_no_path, ex_frame 0 [ex_wide, ex_beside] 0)"
proof -
  have b: "approach_has_blocking_obstacle (scenario_config (GetContext (ex_stage ex_no_path)))
             (front (ex_frame 0 [ex_wide, ex_beside] 0))
             (obstacles (front (ex_frame 0 [ex_wide, ex_beside] 0))) False"
    by (simp add: approach_blocks_def kAdcDistanceThreshold_def ex_reference_line_def ex_box_def ex_obstacle_def ex_path_def ex_point_def ex_frame_def
      ex_config_def ex_stage_def ex_env_def
      ex_wide_def ex_beside_def ex_no_path_def plan_keep_def)
  have k: "PlanningOnReferenceLine (ex_env plan_keep) ex_point
             (ex_frame 0 [ex_wide, ex_beside] 0) = (True, ex_frame 0 [ex_wide, ex_beside] 0)"
    by (simp add: ex_reference_line_def ex_box_def ex_obstacle_def ex_path_def ex_point_def ex_frame_def
      ex_config_def ex_stage_def ex_env_def
      ex_wide_def ex_beside_def ex_no_path_def plan_keep_def)
  have q: "qualifying_distances (ex_frame 0 [ex_wide, ex_beside] 0) = [10, - 2]"
    by (simp add: qualifying_distances_def qualifies_def ex_reference_line_def ex_box_def ex_obstacle_def ex_path_def ex_point_def ex_frame_def
      ex_config_def ex_stage_def ex_env_def
      ex_wide_def ex_beside_def ex_no_path_def plan_keep_def)
  show ?thesis
    using front_obstacle_distance_min_and_error [of "ex_frame 0 [ex_wide, ex_beside] 0"
        "ex_stage ex_no_path" "ex_frame 0 [ex_wide, ex_beside] 0" "ex_env plan_keep" ex_point]
      b k q
    by simp
qed

subsection \<open>SidePassDetectSafety\<close>

text \<open>
  C7: in \<^verbatim>\<open>SidePassDetectSafety\<close>, after a successful hand-off and replan, the path is found
  unsafe exactly when the frame holds a virtual obstacle whose identifier begins with
  \<^verbatim>\<open>SP_\<close> and whose start station is at or beyond the ego's front edge; with no such marker
  the stage returns FINISHED with the directive \<^verbatim>\<open>SIDE_PASS_PASS_OBSTACLE\<close>, with one it
  returns RUNNING.
\<close>

theorem detect_safety_unsafe_marker:
  assumes "hand_off env st frame = (True, st1, frame1)"
    and "PlanningOnReferenceLine env p frame1 = (True, frame2)"
  shows "(\<not> is_safe (end_s (AdcSlBoundary (front frame2))) (obstacles (front frame2))
            \<longleftrightarrow> (\<exists>ob \<in> set (obstacles (front frame2)).
                   unsafe_marker (end_s (AdcSlBoundary (front frame2))) ob))
     \<and> SidePassDetectSafety_Process env p st frame =
           (if \<exists>ob \<in> set (obstacles (front frame2)).
                 unsafe_marker (end_s (AdcSlBoundary (front frame2))) ob
            then (RUNNING, st1, frame2)
            else (FINISHED, st1\<lparr>next_stage := SIDE_PASS_PASS_OBSTACLE\<rparr>, frame2))"
  using assms by (simp add: SidePassDetectSafety_Process_def is_safe_iff)

text \<open>
  C7 on a scene with a parked car and a marker at station 20: with the ego's front edge at
  0 the stage keeps running, with the front edge at 30 (the marker behind it) the stage
  finishes with \<^verbatim>\<open>SIDE_PASS_PASS_OBSTACLE\<close>.
\<close>

theorem detect_safety_unsafe_marker_witness:
  "SidePassDetectSafety_Process (ex_env plan_keep) ex_point (ex_stage ex_path)
       (ex_frame 0 [ex_parked, ex_marker] 0)
     = (RUNNING, ex_stage ex_path,
        snd (snd (hand_off (ex_env plan_keep) (ex_stage ex_path)
                    (ex_frame 0 [ex_parked, ex_marker] 0))))
   \<and> SidePassDetectSafety_Process (ex_env plan_keep) ex_point (ex_stage ex_path)
       (ex_frame 30 [ex_parked, ex_marker] 0)
     = (FINISHED, (ex_stage ex_path)\<lparr>next_stage := SIDE_PASS_PASS_OBSTACLE\<rparr>,
        snd (snd (hand_off (ex_env plan_keep) (ex_stage ex_path)
                    (ex_frame 30 [ex_parked, ex_marker] 0))))"
proof -
  have h: "hand_off (ex_env plan_keep) (ex_stage ex_path) frame
           = (True, ex_stage ex_path,
              snd (snd (hand_off (ex_env plan_keep) (ex_stage ex_path) frame)))" for frame
    by (simp add: hand_off_def ex_reference_line_def ex_box_def ex_obstacle_def ex_path_def ex_point_def ex_frame_def
      ex_config_def ex_stage_def ex_env_def
      ex_parked_def ex_marker_def plan_keep_def)
  have k: "PlanningOnReferenceLine (ex_env plan_keep) ex_point frame = (True, frame)" for frame
    by (simp add: ex_reference_line_def ex_box_def ex_obstacle_def ex_path_def ex_point_def ex_frame_def
      ex_config_def ex_stage_def ex_env_def
      ex_parked_def ex_marker_def plan_keep_def)
  have m: "(\<exists>ob \<in> set (obstacles (front (snd (snd (hand_off (ex_env plan_keep)
                (ex_stage ex_path) (ex_frame a [ex_parked, ex_marker] 0)))))).
             unsafe_marker (end_s (AdcSlBoundary (front (snd (snd (hand_off (ex_env plan_keep)
                (ex_stage ex_path) (ex_frame a [ex_parked, ex_marker] 0))))))) ob)
           \<longleftrightarrow> a \<le> 20" for a
    by (simp add: hand_off_def unsafe_marker_def ex_reference_line_def ex_box_def ex_obstacle_def ex_path_def ex_point_def ex_frame_def
      ex_config_def ex_stage_def ex_env_def
      ex_parked_def ex_marker_def plan_keep_def)
  show ?thesis
    using detect_safety_unsafe_marker [OF h k, of "ex_frame 0 [ex_parked, ex_marker] 0"]
      detect_safety_unsafe_marker [OF h k, of "ex_frame 30 [ex_parked, ex_marker] 0"]
      m [of 0] m [of 30]
    by simp
qed

subsection \<open>SidePassPassObstacle\<close>

text \<open>
  C3: in \<^verbatim>\<open>SidePassPassObstacle\<close>, after a successful hand-off and replan, the stage returns
  ERROR if the conversion of the path's end point to station and offset fails; otherwise it
  returns FINISHED with the directive \<^verbatim>\<open>NO_STAGE\<close> exactly when the ego's end station
  exceeds the station of the path's end point minus the exit distance, or the ego's speed
  is below the approach stop speed; in every other case it returns RUNNING.
\<close>

theorem pass_obstacle_exit_condition:
  assumes "hand_off env st frame = (True, st1, frame1)"
    and "PlanningOnReferenceLine env p frame1 = (True, frame2)"
  shows "(XYToSL (reference_line (front frame2)) (end_point_xy env frame2) = None \<longrightarrow>
            SidePassPassObstacle_Process env p st frame = (ERROR, st1, frame2))
     \<and> (\<forall>sl_point. XYToSL (reference_line (front frame2)) (end_point_xy env frame2)
                       = Some sl_point \<longrightarrow>
            SidePassPassObstacle_Process env p st frame =
              (if end_s (AdcSlBoundary (front frame2))
                    > sl_s sl_point - side_pass_exit_distance (scenario_config (GetContext st))
                  \<or> linear_velocity frame2
                    < approach_obstacle_max_stop_speed (scenario_config (GetContext st))
               then (FINISHED, st1\<lparr>next_stage := NO_STAGE\<rparr>, frame2)
               else (RUNNING, st1, frame2)))"
  using assms hand_off_keeps [OF assms(1)]
  by (simp add: SidePassPassObstacle_Process_def end_point_xy_def)

text \<open>
  C3 on the specification's scenario, at speed 5: with the path ending at station 55 and an
  exit distance of 3, an ego whose end station is 50 keeps running and one whose end
  station is 53 finishes with \<^verbatim>\<open>NO_STAGE\<close>; where the end point cannot be converted the
  stage returns ERROR.
\<close>

theorem pass_obstacle_exit_condition_witness:
  "SidePassPassObstacle_Process (ex_env plan_keep) ex_point (ex_stage ex_path)
       (ex_frame 50 [] 5)
     = (RUNNING, ex_stage ex_path, snd (snd (hand_off (ex_env plan_keep) (ex_stage ex_path)
                                               (ex_frame 50 [] 5))))
   \<and> SidePassPassObstacle_Process (ex_env plan_keep) ex_point (ex_stage ex_path)
       (ex_frame 53 [] 5)
     = (FINISHED, (ex_stage ex_path)\<lparr>next_stage := NO_STAGE\<rparr>,
        snd (snd (hand_off (ex_env plan_keep) (ex_stage ex_path) (ex_frame 53 [] 5))))
   \<and> fst (SidePassPassObstacle_Process (ex_env plan_keep) ex_point (ex_stage ex_path)
       (ex_no_conversion (ex_frame 53 [] 5))) = ERROR"
proof -
  have h: "hand_off (ex_env plan_keep) (ex_stage ex_path) frame
           = (True, ex_stage ex_path,
              snd (snd (hand_off (ex_env plan_keep) (ex_stage ex_path) frame)))" for frame
    by (simp add: hand_off_def ex_reference_line_def ex_box_def ex_obstacle_def ex_path_def ex_point_def ex_frame_def
      ex_config_def ex_stage_def ex_env_def
      ex_no_conversion_def plan_keep_def)
  have k: "PlanningOnReferenceLine (ex_env plan_keep) ex_point frame = (True, frame)" for frame
    by (simp add: ex_reference_line_def ex_box_def ex_obstacle_def ex_path_def ex_point_def ex_frame_def
      ex_config_def ex_stage_def ex_env_def
      ex_no_conversion_def plan_keep_def)
  have x: "XYToSL (reference_line (front (snd (snd (hand_off (ex_env plan_keep)
             (ex_stage ex_path) (ex_frame a [] 5))))))
            (end_point_xy (ex_env plan_keep) (snd (snd (hand_off (ex_env plan_keep)
             (ex_stage ex_path) (ex_frame a [] 5)))))
           = Some \<lparr>sl_s = 55, sl_l = 0\<rparr>" for a
    by (simp add: hand_off_def end_point_xy_def ex_reference_line_def ex_box_def ex_obstacle_def ex_path_def ex_point_def ex_frame_def
      ex_config_def ex_stage_def ex_env_def
      ex_no_conversion_def plan_keep_def)
  have y: "XYToSL (reference_line (front (snd (snd (hand_off (ex_env plan_keep)
             (ex_stage ex_path) (ex_no_conversion (ex_frame 53 [] 5)))))))
            (end_point_xy (ex_env plan_keep) (snd (snd (hand_off (ex_env plan_keep)
             (ex_stage ex_path) (ex_no_conversion (ex_frame 53 [] 5))))))
           = None"
    by (simp add: hand_off_def end_point_xy_def ex_reference_line_def ex_box_def ex_obstacle_def ex_path_def ex_point_def ex_frame_def
      ex_config_def ex_stage_def ex_env_def
      ex_no_conversion_def plan_keep_def)
  have e: "end_s (AdcSlBoundary (front (snd (snd (hand_off (ex_env plan_keep)
             (ex_stage ex_path) (ex_frame a [] 5)))))) = a
           \<and> linear_velocity (snd (snd (hand_off (ex_env plan_keep)
             (ex_stage ex_path) (ex_frame a [] 5)))) = 5" for a
    by (simp add: hand_off_def ex_reference_line_def ex_box_def ex_obstacle_def ex_path_def ex_point_def ex_frame_def
      ex_config_def ex_stage_def ex_env_def
      ex_no_conversion_def plan_keep_def)
  show ?thesis
    using pass_obstacle_exit_condition [OF h k, of "ex_frame 50 [] 5"]
      pass_obstacle_exit_condition [OF h k, of "ex_frame 53 [] 5"]
      pass_obstacle_exit_condition [OF h k, of "ex_no_conversion (ex_frame 53 [] 5)"]
      x [of 50] x [of 53] y e [of 50] e [of 53]
    by (simp add: ex_stage_def ex_config_def)
qed

end
